theory Spec2Isabelle
  imports Main "HOL-Library.Char_ord" "HOL-Library.List_Lexorder"
begin

section \<open>The keycmd plugin of uzbl (examples/data/uzbl/plugins/keycmd.py)\<close>

text \<open>
  The plugin tracks, for one browser instance, the command line being typed (\<open>cmd\<close>),
  the cursor in it, the keys held down and the modcmd flag, and tells the event bus about
  every change. The functions below follow the Python source function by function.
  Python strings are \<open>string\<close>; Python integers are \<open>int\<close>; every exception the
  source can raise is a value of \<open>error\<close>.
\<close>

subsection \<open>Python string operations the plugin uses\<close>

abbreviation backslash :: char where
  "backslash \<equiv> CHR 0x5C"

text \<open>\<^verbatim>\<open>s.startswith(p)\<close> and \<^verbatim>\<open>s.endswith(p)\<close>.\<close>

definition startswith :: "string \<Rightarrow> string \<Rightarrow> bool" where
  "startswith s p = (take (length p) s = p)"

definition endswith :: "string \<Rightarrow> string \<Rightarrow> bool" where
  "endswith s p = (length p \<le> length s \<and> drop (length s - length p) s = p)"

text \<open>
  Slices and indexing with Python's reading of a negative index (counted from the
  end) and its clamping of a slice bound: \<^verbatim>\<open>s[:i]\<close>, \<^verbatim>\<open>s[i:]\<close> and \<^verbatim>\<open>s[i]\<close>.
  Indexing out of range raises IndexError: \<open>None\<close> here.
\<close>

definition slice_to :: "string \<Rightarrow> int \<Rightarrow> string" where
  "slice_to s i = take (nat (if i < 0 then int (length s) + i else i)) s"

definition slice_from :: "string \<Rightarrow> int \<Rightarrow> string" where
  "slice_from s i = drop (nat (if i < 0 then int (length s) + i else i)) s"

definition char_at :: "string \<Rightarrow> int \<Rightarrow> char option" where
  "char_at s i =
     (let j = (if i < 0 then int (length s) + i else i)
      in if 0 \<le> j \<and> j < int (length s) then Some (s ! nat j) else None)"

text \<open>\<^verbatim>\<open>s.replace(c, new)\<close> for a one-character \<open>c\<close>: every occurrence is replaced.\<close>

definition replace :: "string \<Rightarrow> char \<Rightarrow> string \<Rightarrow> string" where
  "replace s c new = concat (map (\<lambda>x. if x = c then new else [x]) s)"

text \<open>
  \<^verbatim>\<open>s.rfind(sub)\<close>: the highest index at which \<open>sub\<close> starts in \<open>s\<close>, \<open>None\<close> for
  Python's -1; \<^verbatim>\<open>sub in s\<close>; \<^verbatim>\<open>s.rstrip(chars)\<close>, which removes the trailing characters
  that occur in \<open>chars\<close> (a set of characters, not a suffix); \<^verbatim>\<open>s.rsplit(sep, 1)\<close>, which
  splits once, at the last occurrence of a non-empty \<open>sep\<close>.
\<close>

fun rfind :: "string \<Rightarrow> string \<Rightarrow> nat option" where
  "rfind [] sub = (if sub = [] then Some 0 else None)"
| "rfind (c # cs) sub =
     (case rfind cs sub of
        Some i \<Rightarrow> Some (Suc i)
      | None \<Rightarrow> if startswith (c # cs) sub then Some 0 else None)"

fun contains :: "string \<Rightarrow> string \<Rightarrow> bool" where
  "contains [] sub = (sub = [])"
| "contains (c # cs) sub = (startswith (c # cs) sub \<or> contains cs sub)"

definition rstrip :: "string \<Rightarrow> string \<Rightarrow> string" where
  "rstrip s chars = rev (dropWhile (\<lambda>c. c \<in> set chars) (rev s))"

definition rsplit1 :: "string \<Rightarrow> string \<Rightarrow> string list" where
  "rsplit1 s sep =
     (case rfind s sep of
        None \<Rightarrow> [s]
      | Some i \<Rightarrow> [take i s, drop (i + length sep) s])"

text \<open>
  \<^verbatim>\<open>s.strip()\<close> removes leading and trailing whitespace, and \<^verbatim>\<open>int(s)\<close> reads a decimal
  literal: optional surrounding whitespace, an optional sign, then at least one digit.
  \<open>None\<close> is the ValueError of \<^verbatim>\<open>int\<close>.
\<close>

definition whitespace :: "char list" where
  "whitespace = [CHR 0x20, CHR 0x09, CHR 0x0A, CHR 0x0D, CHR 0x0B, CHR 0x0C]"

definition strip :: "string \<Rightarrow> string" where
  "strip s =
     rev (dropWhile (\<lambda>c. c \<in> set whitespace)
       (rev (dropWhile (\<lambda>c. c \<in> set whitespace) s)))"

definition digits :: "char list" where
  "digits = ''0123456789''"

definition digit_value :: "char \<Rightarrow> nat" where
  "digit_value c = length (takeWhile (\<lambda>d. d \<noteq> c) digits)"

definition decimal :: "string \<Rightarrow> nat" where
  "decimal ds = foldl (\<lambda>a c. 10 * a + digit_value c) 0 ds"

definition py_int :: "string \<Rightarrow> int option" where
  "py_int s =
     (let t = strip s;
          neg = (t \<noteq> [] \<and> hd t = CHR ''-'');
          ds = (if t \<noteq> [] \<and> (hd t = CHR ''-'' \<or> hd t = CHR ''+'') then tl t else t)
      in if ds \<noteq> [] \<and> list_all (\<lambda>c. c \<in> set digits) ds
         then Some (if neg then - int (decimal ds) else int (decimal ds))
         else None)"

subsection \<open>escape\<close>

definition escape :: "string \<Rightarrow> string" where
  "escape str =
     (if str = [] then []
      else
        (let str = foldl (\<lambda>str char. if char \<in> set str
                                       then replace str char [backslash, char] else str)
                     str [backslash, CHR ''@'']
         in ''@['' @ str @ '']@''))"

subsection \<open>The Keylet\<close>

text \<open>
  The class \<open>Keylet\<close>; \<open>to_string_cache\<close> is the attribute \<^verbatim>\<open>_to_string\<close>. The regular
  expression predicate \<^verbatim>\<open>match\<close> and its cache are used by other plugins only and are
  left out.
\<close>

record Keylet =
  cmd :: string
  cursor :: int
  held :: "string list"
  to_string_cache :: "string option"
  modcmd :: bool

definition Keylet_init :: Keylet where
  "Keylet_init =
     \<lparr>cmd = [], cursor = 0, held = [], to_string_cache = None, modcmd = False\<rparr>"

definition mod_held :: "Keylet \<Rightarrow> bool" where
  "mod_held k = list_ex (\<lambda>x. length x \<noteq> 1) (held k)"

definition key_cmd :: "Keylet \<Rightarrow> string" where
  "key_cmd k = cmd k"

definition mod_cmd :: "Keylet \<Rightarrow> string" where
  "mod_cmd k = concat (map (\<lambda>key. ''<'' @ key @ ''>'') (held k))"

text \<open>\<open>to_string\<close> returns the cached string when there is one and fills the cache otherwise.\<close>

definition to_string :: "Keylet \<Rightarrow> string \<times> Keylet" where
  "to_string k =
     (case to_string_cache k of
        Some s \<Rightarrow> (s, k)
      | None \<Rightarrow>
          (let s = mod_cmd k @ key_cmd k
           in (s, k\<lparr>to_string_cache := Some s\<rparr>)))"

subsection \<open>make_simple\<close>

definition SIMPLEKEYS :: "(string \<times> string) list" where
  "SIMPLEKEYS =
     [(''Control'', ''Ctrl''),
      (''ISO_Left_Tab'', ''Shift-Tab''),
      (''space'', ''Space'')]"

definition make_simple :: "string \<Rightarrow> string" where
  "make_simple key =
     (let key = (if endswith key ''_L'' \<or> endswith key ''_R''
                 then slice_to key (- 2) else key)
      in case map_of SIMPLEKEYS key of Some v \<Rightarrow> v | None \<Rightarrow> key)"

subsection \<open>The uzbl object, the event bus and the registry\<close>

text \<open>
  A handler either returns or raises; in both cases it leaves a state behind, since the
  Keylet is mutated in place before an exception propagates.
\<close>

datatype error = ValueError | AssertionError | IndexError

datatype 'a outcome = Returns 'a | Raises error 'a

text \<open>
  The \<open>uzbl\<close> object is an external collaborator. Of it the plugin uses the
  configuration dictionary (\<^verbatim>\<open>uzbl.get_config()\<close>), \<^verbatim>\<open>uzbl.event(name, ...)\<close> and
  \<^verbatim>\<open>uzbl.set(key, value)\<close>. The calls to \<^verbatim>\<open>event\<close> and \<^verbatim>\<open>set\<close> that the plugin makes are
  recorded, in order, in \<open>trace\<close>. \<^verbatim>\<open>uzbl.event\<close> runs the handlers that other plugins
  have connected before it returns, and those may change the Keylet and the
  configuration: they are the parameter \<open>react\<close> of every function that raises an
  event. \<open>no_handlers\<close> is the bus with nothing else connected.
\<close>

datatype action = Event string | Set string string

type_synonym config = "string \<rightharpoonup> string"

type_synonym react = "string \<Rightarrow> Keylet \<times> config \<Rightarrow> Keylet \<times> config"

record uzbl =
  config :: config
  trace :: "action list"

definition no_handlers :: react where
  "no_handlers name s = s"

definition event :: "react \<Rightarrow> uzbl \<Rightarrow> string \<Rightarrow> Keylet \<Rightarrow> Keylet \<times> uzbl" where
  "event r u name k =
     (let (k', c') = r name (k, config u)
      in (k', u\<lparr>config := c', trace := trace u @ [Event name]\<rparr>))"

definition uzbl_set :: "uzbl \<Rightarrow> string \<Rightarrow> string \<Rightarrow> uzbl" where
  "uzbl_set u key v = u\<lparr>trace := trace u @ [Set key v]\<rparr>"

text \<open>
  \<open>UZBLS\<close> is the module's dictionary from instances to Keylets, seen from one
  instance: \<open>None\<close> when the instance is not a key of it.
\<close>

record world =
  UZBLS :: "Keylet option"
  uzbl :: uzbl

definition registered :: "Keylet \<times> uzbl \<Rightarrow> world" where
  "registered ku = \<lparr>UZBLS = Some (fst ku), uzbl = snd ku\<rparr>"

definition add_instance :: "world \<Rightarrow> world" where
  "add_instance w = w\<lparr>UZBLS := Some Keylet_init\<rparr>"

definition del_instance :: "world \<Rightarrow> world" where
  "del_instance w = (if UZBLS w \<noteq> None then w\<lparr>UZBLS := None\<rparr> else w)"

definition get_keylet :: "world \<Rightarrow> Keylet \<times> world" where
  "get_keylet w =
     (let w = (if UZBLS w = None then add_instance w else w);
          keylet = (case UZBLS w of Some k \<Rightarrow> k | None \<Rightarrow> Keylet_init)
                     \<lparr>to_string_cache := None\<rparr>
      in (keylet, w\<lparr>UZBLS := Some keylet\<rparr>))"

subsection \<open>clear_keycmd and update_event\<close>

definition clear_keycmd :: "react \<Rightarrow> world \<Rightarrow> world" where
  "clear_keycmd r w =
     (let (k, w) = get_keylet w;
          k = k\<lparr>cmd := [], cursor := 0, to_string_cache := None\<rparr>;
          k = k\<lparr>modcmd := mod_held k\<rparr>;
          u = uzbl w;
          u = (if config u ''keycmd'' = None \<or> config u ''keycmd'' \<noteq> Some []
               then u\<lparr>config := (config u)(''keycmd'' \<mapsto> [])\<rparr> else u)
      in registered (event r u ''KEYCMD_CLEAR'' k))"

definition KEYCMD_FORMAT :: "string \<Rightarrow> string \<Rightarrow> string \<Rightarrow> string" where
  "KEYCMD_FORMAT a b c = a @ ''<span @cursor_style>'' @ b @ ''</span>'' @ c"

definition update_event :: "react \<Rightarrow> uzbl \<Rightarrow> Keylet \<Rightarrow> bool \<Rightarrow> (Keylet \<times> uzbl) outcome" where
  "update_event r u k execute =
     (if modcmd k then
        (let (keycmd, k) = to_string k;
             (k, u) = (if execute then event r u ''MODCMD_UPDATE'' k else (k, u));
             (keycmd', k) = to_string k
         in if keycmd \<noteq> keycmd' then Returns (k, u)
            else if config u ''modcmd_updates'' \<noteq> None
                    \<and> config u ''modcmd_updates'' \<noteq> Some ''1''
            then Returns (k, u)
            else Returns (k, uzbl_set u ''keycmd'' (escape keycmd)))
      else if config u ''keycmd_events'' \<noteq> None
              \<and> config u ''keycmd_events'' \<noteq> Some ''1''
      then Returns (k, u)
      else
        (let keycmd = cmd k;
             (k, u) = (if execute then event r u ''KEYCMD_UPDATE'' k else (k, u))
         in if keycmd \<noteq> cmd k then Returns (k, u)
            else if cmd k = [] then Returns (k, uzbl_set u ''keycmd'' [])
            else
              (case (if cursor k < int (length (cmd k))
                     then char_at (cmd k) (cursor k) else Some CHR '' '') of
                 None \<Rightarrow> Raises IndexError (k, u)
               | Some c \<Rightarrow>
                   Returns (k, uzbl_set u ''keycmd''
                     (KEYCMD_FORMAT (escape (slice_to (cmd k) (cursor k)))
                        (escape [c])
                        (escape (slice_from (cmd k) (cursor k + 1))))))))"

subsection \<open>The handlers\<close>

definition key_press :: "react \<Rightarrow> world \<Rightarrow> string \<Rightarrow> world outcome" where
  "key_press r w key =
     (if startswith key ''Shift_'' then Returns w
      else
        (let key = (if length key > 1 then make_simple key else key);
             (k, w) = get_keylet w;
             u = uzbl w;
             (k, cmdmod) =
               (if cmd k \<noteq> [] \<and> \<not> modcmd k \<and> key = ''Space'' then
                  (k\<lparr>cmd := slice_to (cmd k) (cursor k) @ '' ''
                              @ slice_from (cmd k) (cursor k),
                     cursor := cursor k + 1\<rparr>, True)
                else if length key > 1 then (k\<lparr>modcmd := True\<rparr>, True)
                else if \<not> modcmd k then
                  (if config u ''keycmd_events'' = None
                      \<or> config u ''keycmd_events'' = Some ''1''
                   then
                     (if length key = 1 then
                        (k\<lparr>cmd := slice_to (cmd k) (cursor k) @ key
                                    @ slice_from (cmd k) (cursor k),
                           cursor := cursor k + 1\<rparr>, True)
                      else (k, False))
                   else if cmd k \<noteq> [] then (k\<lparr>cmd := [], cursor := 0\<rparr>, True)
                   else (k, False))
                else (k, False));
             (k, cmdmod) =
               (if modcmd k then
                  (let k = (if key = ''Shift-Tab'' \<and> ''Tab'' \<in> set (held k)
                            then k\<lparr>held := remove1 ''Tab'' (held k)\<rparr> else k)
                   in if key \<notin> set (held k)
                      then (k\<lparr>held := sort (held k @ [key])\<rparr>, True)
                      else (k, cmdmod))
                else (k, cmdmod))
         in if cmdmod then map_outcome registered (update_event r u k True)
            else Returns (registered (k, u))))"

text \<open>
  The name under which \<open>key_release\<close> looks a released key up in \<open>held\<close>: the key
  made simple, then a lone Shift, Tab or Alt taken as the compound key that is held.
\<close>

definition release_name :: "string list \<Rightarrow> string \<Rightarrow> string" where
  "release_name hs key =
     (let key = (if length key > 1 then make_simple key else key)
      in if key \<in> set [''Shift'', ''Tab''] \<and> ''Shift-Tab'' \<in> set hs then ''Shift-Tab''
         else if key \<in> set [''Shift'', ''Alt''] \<and> ''Meta'' \<in> set hs then ''Meta''
         else key)"

definition key_release :: "react \<Rightarrow> world \<Rightarrow> string \<Rightarrow> world outcome" where
  "key_release r w key =
     (let (k, w) = get_keylet w;
          u = uzbl w;
          key = release_name (held k) key
      in if key \<in> set (held k) then
           (let k = k\<lparr>held := remove1 key (held k)\<rparr>;
                k = k\<lparr>modcmd := mod_held k\<rparr>;
                (k, u) = (if modcmd k then event r u ''MODCMD_EXEC'' k else (k, u))
            in map_outcome registered (update_event r u k True))
         else Returns (registered (k, u)))"

text \<open>
  The docstring of \<open>key_release\<close> lists its steps in this order: remove the key from
  the held list; if in a mod-command then raise \<open>MODCMD_EXEC\<close>; check if any modkey is
  held and set the mode accordingly; update the keycmd variable if anything changed. The
  source (above) sets the mode before it tests it. \<open>key_release_doc\<close> is the handler
  with the two statements in the documented order, for comparison; nothing else differs.
\<close>

definition key_release_doc :: "react \<Rightarrow> world \<Rightarrow> string \<Rightarrow> world outcome" where
  "key_release_doc r w key =
     (let (k, w) = get_keylet w;
          u = uzbl w;
          key = release_name (held k) key
      in if key \<in> set (held k) then
           (let k = k\<lparr>held := remove1 key (held k)\<rparr>;
                (k, u) = (if modcmd k then event r u ''MODCMD_EXEC'' k else (k, u));
                k = k\<lparr>modcmd := mod_held k\<rparr>
            in map_outcome registered (update_event r u k True))
         else Returns (registered (k, u)))"

definition set_keycmd :: "react \<Rightarrow> world \<Rightarrow> string \<Rightarrow> world outcome" where
  "set_keycmd r w keycmd =
     (let (k, w) = get_keylet w;
          k = k\<lparr>modcmd := False, to_string_cache := None, cmd := keycmd,
                cursor := int (length keycmd)\<rparr>
      in map_outcome registered (update_event r (uzbl w) k False))"

definition keycmd_strip_word :: "react \<Rightarrow> world \<Rightarrow> string \<Rightarrow> world outcome" where
  "keycmd_strip_word r w sep =
     (let sep = (if sep = [] then '' '' else sep);
          (k, w) = get_keylet w
      in if cmd k = [] then Returns w
         else
           (let cmd0 = slice_to (cmd k) (cursor k);
                tail = int (length (cmd k)) - cursor k;
                tmp = (if contains cmd0 sep then rsplit1 (rstrip cmd0 sep) sep else [[]]);
                k = k\<lparr>cmd := hd tmp @ (if length tmp = 2 then sep else [])
                              @ slice_from (cmd k) (cursor k),
                      cursor := int (length (hd tmp)) + (int (length tmp) - 1)\<rparr>
            in if int (length (cmd k)) - cursor k \<noteq> tail
               then Raises AssertionError (registered (k, uzbl w))
               else map_outcome registered (update_event r (uzbl w) k False)))"

definition keycmd_backspace :: "react \<Rightarrow> world \<Rightarrow> string \<Rightarrow> world outcome" where
  "keycmd_backspace r w foo =
     (let (k, w) = get_keylet w
      in if cmd k = [] then Returns w
         else
           (let k = k\<lparr>cmd := slice_to (cmd k) (cursor k - 1) @ slice_from (cmd k) (cursor k),
                      cursor := cursor k - 1\<rparr>
            in map_outcome registered (update_event r (uzbl w) k False)))"

definition keycmd_exec_current :: "react \<Rightarrow> world \<Rightarrow> string \<Rightarrow> world outcome" where
  "keycmd_exec_current r w foo =
     (let (k, w) = get_keylet w
      in Returns (clear_keycmd r (registered (event r (uzbl w) ''KEYCMD_EXEC'' k))))"

definition set_cursor_pos :: "react \<Rightarrow> world \<Rightarrow> string \<Rightarrow> world outcome" where
  "set_cursor_pos r w index =
     (let (k, w) = get_keylet w
      in case (if index = ''-'' then Some (cursor k - 1)
               else if index = ''+'' then Some (cursor k + 1)
               else
                 (case py_int (strip index) of
                    None \<Rightarrow> None
                  | Some c \<Rightarrow> Some (if c < 0 then int (length (cmd k)) + c + 1 else c))) of
           None \<Rightarrow> Raises ValueError w
         | Some c \<Rightarrow>
             (let c = (if c < 0 then 0 else c);
                  c = (if c > int (length (cmd k)) then int (length (cmd k)) else c);
                  k = k\<lparr>cursor := c\<rparr>
              in map_outcome registered (update_event r (uzbl w) k False)))"

subsection \<open>init: the events the plugin is connected to\<close>

datatype input =
    INSTANCE_START
  | INSTANCE_EXIT
  | KEY_PRESS string
  | KEY_RELEASE string
  | SET_KEYCMD string
  | KEYCMD_STRIP_WORD string
  | KEYCMD_BACKSPACE string
  | KEYCMD_EXEC_CURRENT string
  | SET_CURSOR_POS string

fun connects :: "react \<Rightarrow> world \<Rightarrow> input \<Rightarrow> world outcome" where
  "connects r w INSTANCE_START = Returns (add_instance w)"
| "connects r w INSTANCE_EXIT = Returns (del_instance w)"
| "connects r w (KEY_PRESS key) = key_press r w key"
| "connects r w (KEY_RELEASE key) = key_release r w key"
| "connects r w (SET_KEYCMD keycmd) = set_keycmd r w keycmd"
| "connects r w (KEYCMD_STRIP_WORD sep) = keycmd_strip_word r w sep"
| "connects r w (KEYCMD_BACKSPACE foo) = keycmd_backspace r w foo"
| "connects r w (KEYCMD_EXEC_CURRENT foo) = keycmd_exec_current r w foo"
| "connects r w (SET_CURSOR_POS index) = set_cursor_pos r w index"

text \<open>
  A sequence of events delivered in order to the plugin; delivery stops at the first
  handler that raises.
\<close>

fun deliver :: "react \<Rightarrow> world \<Rightarrow> input list \<Rightarrow> world outcome" where
  "deliver r w [] = Returns w"
| "deliver r w (i # is) =
     (case connects r w i of
        Returns w' \<Rightarrow> deliver r w' is
      | Raises e w' \<Rightarrow> Raises e w')"

text \<open>The state an outcome leaves, and how often an event was raised in a trace.\<close>

fun state_of :: "'a outcome \<Rightarrow> 'a" where
  "state_of (Returns x) = x"
| "state_of (Raises e x) = x"

fun raised :: "'a outcome \<Rightarrow> error option" where
  "raised (Returns x) = None"
| "raised (Raises e x) = Some e"

definition times_raised :: "string \<Rightarrow> action list \<Rightarrow> nat" where
  "times_raised name tr = length (filter (\<lambda>a. a = Event name) tr)"

text \<open>A world whose registry holds a fresh Keylet, with a given configuration.\<close>

definition fresh :: "config \<Rightarrow> world" where
  "fresh c = \<lparr>UZBLS = Some Keylet_init, uzbl = \<lparr>config = c, trace = []\<rparr>\<rparr>"

text \<open>The invariant the data model states for the cursor.\<close>

definition cursor_ok :: "Keylet \<Rightarrow> bool" where
  "cursor_ok k = (0 \<le> cursor k \<and> cursor k \<le> int (length (cmd k)))"

section \<open>Properties\<close>

subsection \<open>Unfolding the model\<close>

lemmas string_defs = startswith_def endswith_def slice_to_def slice_from_def char_at_def
  replace_def rstrip_def rsplit1_def strip_def whitespace_def digits_def digit_value_def
  decimal_def py_int_def escape_def

lemmas model_defs = Keylet_init_def mod_held_def key_cmd_def mod_cmd_def to_string_def
  SIMPLEKEYS_def make_simple_def no_handlers_def event_def uzbl_set_def registered_def
  add_instance_def del_instance_def get_keylet_def clear_keycmd_def KEYCMD_FORMAT_def
  update_event_def key_press_def release_name_def key_release_def set_keycmd_def
  keycmd_strip_word_def keycmd_backspace_def keycmd_exec_current_def set_cursor_pos_def
  times_raised_def fresh_def cursor_ok_def

subsection \<open>The dispatcher on a well-formed Keylet\<close>

text \<open>
  With \<open>execute\<close> false the dispatcher raises no event, so no other handler runs; on a
  Keylet whose cursor is in range it returns, and leaves the Keylet's command, cursor,
  held keys and mode, and the configuration, as they were.
\<close>

lemma update_event_quiet:
  assumes "cursor_ok k"
  shows "\<exists>k' u'. update_event r u k False = Returns (k', u') \<and> cmd k' = cmd k
     \<and> cursor k' = cursor k \<and> held k' = held k \<and> modcmd k' = modcmd k
     \<and> config u' = config u"
proof (cases "modcmd k")
  case True
  then show ?thesis
    by (simp add: update_event_def to_string_def uzbl_set_def Let_def split: option.splits)
next
  case False
  have "cursor k < int (length (cmd k)) \<Longrightarrow> char_at (cmd k) (cursor k) \<noteq> None"
    using assms by (simp add: char_at_def cursor_ok_def)
  with False show ?thesis
    by (auto simp add: update_event_def uzbl_set_def Let_def)
qed

text \<open>
  \<open>set_cursor_pos\<close> on a specification that resolves to the position \<open>c\<close>: the cursor
  becomes \<open>c\<close> clamped into the command.
\<close>

lemma set_cursor_pos_clamped:
  assumes "UZBLS w = Some k"
    and "(if index = ''-'' then Some (cursor k - 1)
          else if index = ''+'' then Some (cursor k + 1)
          else (case py_int (strip index) of
                  None \<Rightarrow> None
                | Some c \<Rightarrow> Some (if c < 0 then int (length (cmd k)) + c + 1 else c))) = Some c"
  shows "\<exists>w' k'. set_cursor_pos r w index = Returns w' \<and> UZBLS w' = Some k'
     \<and> cmd k' = cmd k \<and> cursor k' = max 0 (min (int (length (cmd k))) c)"
proof -
  let ?k0 = "k\<lparr>to_string_cache := None\<rparr>"
  let ?w0 = "w\<lparr>UZBLS := Some ?k0\<rparr>"
  let ?c = "max 0 (min (int (length (cmd k))) c)"
  let ?k1 = "?k0\<lparr>cursor := ?c\<rparr>"
  have gk: "get_keylet w = (?k0, ?w0)"
    using assms(1) by (simp add: get_keylet_def Let_def)
  have tgt: "(if index = ''-'' then Some (cursor ?k0 - 1)
          else if index = ''+'' then Some (cursor ?k0 + 1)
          else (case py_int (strip index) of
                  None \<Rightarrow> None
                | Some c \<Rightarrow> Some (if c < 0 then int (length (cmd ?k0)) + c + 1 else c))) = Some c"
    using assms(2) by (auto split: option.splits if_splits)
  have clamp: "(if (if c < 0 then 0 else c) > int (length (cmd ?k0)) then int (length (cmd ?k0))
                else (if c < 0 then 0 else c)) = ?c"
    by auto
  have ok: "cursor_ok ?k1" by (simp add: cursor_ok_def)
  obtain k' u' where ue: "update_event r (uzbl ?w0) ?k1 False = Returns (k', u')"
    and k': "cmd k' = cmd ?k1" "cursor k' = cursor ?k1"
    using update_event_quiet [OF ok, of r "uzbl ?w0"] by blast
  have "set_cursor_pos r w index = map_outcome registered (update_event r (uzbl ?w0) ?k1 False)"
    unfolding set_cursor_pos_def gk
    by (simp only: Let_def prod.case tgt option.case clamp)
  then have "set_cursor_pos r w index = Returns (registered (k', u'))"
    by (simp only: ue outcome.map)
  then show ?thesis using k' by (simp add: registered_def)
qed

text \<open>
  With nothing else connected to the bus, the dispatcher in modcmd mode returns, and
  only fills the serialization cache of the Keylet.
\<close>

lemma update_event_modcmd_idle:
  assumes "modcmd k" "to_string_cache k = None"
  shows "\<exists>u'. update_event no_handlers u k True
            = Returns (k\<lparr>to_string_cache := Some (mod_cmd k @ cmd k)\<rparr>, u')
          \<and> config u' = config u"
  using assms
  by (simp add: update_event_def to_string_def key_cmd_def event_def no_handlers_def
        uzbl_set_def Let_def)

lemma make_simple_space: "make_simple ''space'' = ''Space''"
  by (simp add: make_simple_def SIMPLEKEYS_def string_defs)

subsection \<open>escape\<close>

text \<open>
  C5. \<open>escape\<close> applied to the five characters \<open>a @ b \ c\<close> returns the eleven
  characters \<open>@ [ a \ @ b \ \ c ] @\<close>: the backslash and the \<open>@\<close> are each prefixed with
  a backslash, the backslash that escapes the \<open>@\<close> is not escaped again, and the result
  is wrapped in \<open>@[\<close> ... \<open>]@\<close>. \<open>escape\<close> of the empty string is the empty string.
\<close>

theorem escape_example:
  "escape [CHR ''a'', CHR ''@'', CHR ''b'', backslash, CHR ''c'']
     = [CHR ''@'', CHR ''['', CHR ''a'', backslash, CHR ''@'', CHR ''b'',
        backslash, backslash, CHR ''c'', CHR '']'', CHR ''@'']
   \<and> length [CHR ''a'', CHR ''@'', CHR ''b'', backslash, CHR ''c''] = 5
   \<and> length (escape [CHR ''a'', CHR ''@'', CHR ''b'', backslash, CHR ''c'']) = 11
   \<and> escape [] = []"
  by (simp add: escape_def replace_def)

subsection \<open>set_cursor_pos\<close>

text \<open>
  C6. For every Keylet and every cursor specification that is \<open>-\<close>, \<open>+\<close> or parses as a
  signed integer, \<open>set_cursor_pos\<close> returns and sets the cursor to: the cursor minus one
  for \<open>-\<close>, the cursor plus one for \<open>+\<close>, \<open>n\<close> for a non-negative integer \<open>n\<close>, and
  \<open>len(command) + n + 1\<close> for a negative integer \<open>n\<close>; each clamped into
  \<open>[0, len(command)]\<close>. It holds whatever else is connected to the bus.
\<close>

theorem set_cursor_pos_sets_cursor:
  "UZBLS w = Some k \<Longrightarrow>
    (index = ''-'' \<longrightarrow>
       (\<exists>w' k'. set_cursor_pos r w index = Returns w' \<and> UZBLS w' = Some k'
          \<and> cursor k' = max 0 (min (int (length (cmd k))) (cursor k - 1))))
  \<and> (index = ''+'' \<longrightarrow>
       (\<exists>w' k'. set_cursor_pos r w index = Returns w' \<and> UZBLS w' = Some k'
          \<and> cursor k' = max 0 (min (int (length (cmd k))) (cursor k + 1))))
  \<and> (\<forall>n. index \<noteq> ''-'' \<and> index \<noteq> ''+'' \<and> py_int (strip index) = Some n \<longrightarrow>
       (\<exists>w' k'. set_cursor_pos r w index = Returns w' \<and> UZBLS w' = Some k'
          \<and> cursor k' = max 0 (min (int (length (cmd k)))
                           (if n < 0 then int (length (cmd k)) + n + 1 else n))))"
proof (intro conjI impI allI)
  assume k: "UZBLS w = Some k"
  {
    assume "index = ''-''"
    with set_cursor_pos_clamped [OF k, of index "cursor k - 1" r]
    show "\<exists>w' k'. set_cursor_pos r w index = Returns w' \<and> UZBLS w' = Some k'
          \<and> cursor k' = max 0 (min (int (length (cmd k))) (cursor k - 1))"
      by auto
  next
    assume "index = ''+''"
    with set_cursor_pos_clamped [OF k, of index "cursor k + 1" r]
    show "\<exists>w' k'. set_cursor_pos r w index = Returns w' \<and> UZBLS w' = Some k'
          \<and> cursor k' = max 0 (min (int (length (cmd k))) (cursor k + 1))"
      by auto
  next
    fix n
    assume "index \<noteq> ''-'' \<and> index \<noteq> ''+'' \<and> py_int (strip index) = Some n"
    with set_cursor_pos_clamped [OF k, of index "if n < 0 then int (length (cmd k)) + n + 1 else n" r]
    show "\<exists>w' k'. set_cursor_pos r w index = Returns w' \<and> UZBLS w' = Some k'
          \<and> cursor k' = max 0 (min (int (length (cmd k)))
                           (if n < 0 then int (length (cmd k)) + n + 1 else n))"
      by auto
  }
qed

text \<open>
  The instance the specification gives: \<open>set_cursor_pos("-5")\<close> on the command \<open>abc\<close>
  resolves to \<open>3 + (-5) + 1 = -1\<close> and is clamped to 0.
\<close>

theorem set_cursor_pos_minus_five_witness:
  "UZBLS \<lparr>UZBLS = Some \<lparr>cmd = ''abc'', cursor = 3, held = [], to_string_cache = None,
                           modcmd = False\<rparr>,
           uzbl = \<lparr>config = map_of [], trace = []\<rparr>\<rparr>
     = Some \<lparr>cmd = ''abc'', cursor = 3, held = [], to_string_cache = None, modcmd = False\<rparr>
   \<and> py_int (strip ''-5'') = Some (- 5)
   \<and> (\<exists>w' k'. set_cursor_pos no_handlers
          \<lparr>UZBLS = Some \<lparr>cmd = ''abc'', cursor = 3, held = [], to_string_cache = None,
                           modcmd = False\<rparr>,
           uzbl = \<lparr>config = map_of [], trace = []\<rparr>\<rparr> ''-5'' = Returns w'
        \<and> UZBLS w' = Some k' \<and> cursor k' = 0)"
  using set_cursor_pos_sets_cursor
    [of "\<lparr>UZBLS = Some \<lparr>cmd = ''abc'', cursor = 3, held = [], to_string_cache = None,
                           modcmd = False\<rparr>,
          uzbl = \<lparr>config = map_of [], trace = []\<rparr>\<rparr>"
        "\<lparr>cmd = ''abc'', cursor = 3, held = [], to_string_cache = None, modcmd = False\<rparr>"
        "''-5''" no_handlers]
  by (simp add: string_defs)

text \<open>
  C7. For every cursor specification that is neither \<open>-\<close> nor \<open>+\<close> nor parseable as an
  integer after stripping whitespace, \<open>set_cursor_pos\<close> raises the ValueError of the
  parse; the command, cursor, held keys and mode of the Keylet are unchanged, the
  configuration is unchanged and nothing is added to the trace of events and writes.
\<close>

theorem set_cursor_pos_unparseable:
  "UZBLS w = Some k \<Longrightarrow> index \<noteq> ''-'' \<Longrightarrow> index \<noteq> ''+'' \<Longrightarrow> py_int (strip index) = None
   \<Longrightarrow> \<exists>w' k'. set_cursor_pos r w index = Raises ValueError w' \<and> UZBLS w' = Some k'
     \<and> cmd k' = cmd k \<and> cursor k' = cursor k \<and> held k' = held k \<and> modcmd k' = modcmd k
     \<and> config (uzbl w') = config (uzbl w) \<and> trace (uzbl w') = trace (uzbl w)"
  by (simp add: set_cursor_pos_def get_keylet_def Let_def)

theorem set_cursor_pos_unparseable_witness:
  "UZBLS (fresh (map_of [])) = Some Keylet_init
   \<and> ''1x'' \<noteq> ''-'' \<and> ''1x'' \<noteq> ''+'' \<and> py_int (strip ''1x'') = None
   \<and> (\<exists>w' k'. set_cursor_pos no_handlers (fresh (map_of [])) ''1x'' = Raises ValueError w'
        \<and> UZBLS w' = Some k' \<and> cmd k' = [] \<and> cursor k' = 0 \<and> held k' = []
        \<and> \<not> modcmd k' \<and> trace (uzbl w') = [])"
  using set_cursor_pos_unparseable [of "fresh (map_of [])" Keylet_init "''1x''" no_handlers]
  by (auto simp add: string_defs fresh_def Keylet_init_def)

subsection \<open>key_release and keycmd_strip_word: what they leave alone\<close>

text \<open>
  C9. For every Keylet, \<open>key_release\<close> with a key whose name, after \<open>make_simple\<close> and
  after a lone Shift, Tab or Alt is taken as the compound Shift-Tab or Meta that is held,
  is not in \<open>held\<close>, returns with command, cursor, held keys and mode unchanged, with the
  configuration unchanged and with nothing added to the trace: no event is raised and
  nothing is written. It holds whatever else is connected to the bus.
\<close>

theorem key_release_not_held:
  "UZBLS w = Some k \<Longrightarrow> release_name (held k) key \<notin> set (held k)
   \<Longrightarrow> \<exists>w' k'. key_release r w key = Returns w' \<and> UZBLS w' = Some k'
     \<and> cmd k' = cmd k \<and> cursor k' = cursor k \<and> held k' = held k \<and> modcmd k' = modcmd k
     \<and> config (uzbl w') = config (uzbl w) \<and> trace (uzbl w') = trace (uzbl w)"
  by (simp add: key_release_def get_keylet_def registered_def Let_def)

theorem key_release_not_held_witness:
  "UZBLS \<lparr>UZBLS = Some \<lparr>cmd = ''ab'', cursor = 2, held = [''Ctrl''],
                           to_string_cache = None, modcmd = True\<rparr>,
           uzbl = \<lparr>config = map_of [], trace = []\<rparr>\<rparr>
     = Some \<lparr>cmd = ''ab'', cursor = 2, held = [''Ctrl''], to_string_cache = None,
             modcmd = True\<rparr>
   \<and> release_name [''Ctrl''] ''Alt_L'' = ''Alt''
   \<and> ''Alt'' \<notin> set [''Ctrl'']
   \<and> (\<exists>w' k'. key_release no_handlers
          \<lparr>UZBLS = Some \<lparr>cmd = ''ab'', cursor = 2, held = [''Ctrl''],
                           to_string_cache = None, modcmd = True\<rparr>,
           uzbl = \<lparr>config = map_of [], trace = []\<rparr>\<rparr> ''Alt_L'' = Returns w'
        \<and> UZBLS w' = Some k' \<and> cmd k' = ''ab'' \<and> cursor k' = 2 \<and> held k' = [''Ctrl'']
        \<and> modcmd k' \<and> trace (uzbl w') = [])"
  using key_release_not_held
    [of "\<lparr>UZBLS = Some \<lparr>cmd = ''ab'', cursor = 2, held = [''Ctrl''],
                           to_string_cache = None, modcmd = True\<rparr>,
          uzbl = \<lparr>config = map_of [], trace = []\<rparr>\<rparr>"
        "\<lparr>cmd = ''ab'', cursor = 2, held = [''Ctrl''], to_string_cache = None,
          modcmd = True\<rparr>"
        "''Alt_L''" no_handlers]
  by (auto simp add: release_name_def make_simple_def SIMPLEKEYS_def string_defs)

text \<open>
  C10, as the claim states it, fails: \<open>keycmd_strip_word\<close> obtains the Keylet through
  \<open>get_keylet\<close>, which clears the serialization cache. After Control has been pressed
  the cache holds \<open><Ctrl>\<close> and the command is empty; \<open>keycmd_strip_word\<close> then returns a
  Keylet whose cache is empty, so one field of the Keylet has changed.
\<close>

theorem keycmd_strip_word_clears_cache_counterexample:
  "key_press no_handlers (fresh (map_of [])) ''Control''
     = Returns \<lparr>UZBLS = Some \<lparr>cmd = [], cursor = 0, held = [''Ctrl''],
                                to_string_cache = Some ''<Ctrl>'', modcmd = True\<rparr>,
                uzbl = \<lparr>config = map_of [],
                         trace = [Event ''MODCMD_UPDATE'', Set ''keycmd'' ''@[<Ctrl>]@'']\<rparr>\<rparr>
   \<and> keycmd_strip_word no_handlers
        \<lparr>UZBLS = Some \<lparr>cmd = [], cursor = 0, held = [''Ctrl''],
                         to_string_cache = Some ''<Ctrl>'', modcmd = True\<rparr>,
         uzbl = \<lparr>config = map_of [],
                  trace = [Event ''MODCMD_UPDATE'', Set ''keycmd'' ''@[<Ctrl>]@'']\<rparr>\<rparr> '' ''
     = Returns \<lparr>UZBLS = Some \<lparr>cmd = [], cursor = 0, held = [''Ctrl''],
                                to_string_cache = None, modcmd = True\<rparr>,
                uzbl = \<lparr>config = map_of [],
                         trace = [Event ''MODCMD_UPDATE'', Set ''keycmd'' ''@[<Ctrl>]@'']\<rparr>\<rparr>
   \<and> to_string_cache \<lparr>cmd = [], cursor = 0, held = [''Ctrl''],
                       to_string_cache = Some ''<Ctrl>'', modcmd = True\<rparr>
     \<noteq> to_string_cache \<lparr>cmd = [], cursor = 0, held = [''Ctrl''],
                         to_string_cache = None, modcmd = True\<rparr>"
  by (simp add: model_defs string_defs Let_def)

text \<open>
  C10, amended. For every Keylet whose command is empty, \<open>keycmd_strip_word\<close> returns at
  once: the command, the cursor, the held keys and the mode are unchanged and the
  serialization cache is cleared (by \<open>get_keylet\<close>); the dispatcher is not invoked, so
  the configuration and the trace of events and writes are unchanged. It holds whatever
  else is connected to the bus.
\<close>

theorem keycmd_strip_word_empty_command:
  "UZBLS w = Some k \<Longrightarrow> cmd k = []
   \<Longrightarrow> keycmd_strip_word r w sep = Returns (w\<lparr>UZBLS := Some (k\<lparr>to_string_cache := None\<rparr>)\<rparr>)
     \<and> cmd (k\<lparr>to_string_cache := None\<rparr>) = cmd k
     \<and> cursor (k\<lparr>to_string_cache := None\<rparr>) = cursor k
     \<and> held (k\<lparr>to_string_cache := None\<rparr>) = held k
     \<and> modcmd (k\<lparr>to_string_cache := None\<rparr>) = modcmd k
     \<and> uzbl (w\<lparr>UZBLS := Some (k\<lparr>to_string_cache := None\<rparr>)\<rparr>) = uzbl w"
  by (simp add: keycmd_strip_word_def get_keylet_def Let_def)

theorem keycmd_strip_word_empty_command_witness:
  "UZBLS \<lparr>UZBLS = Some \<lparr>cmd = [], cursor = 0, held = [''Ctrl''],
                           to_string_cache = Some ''<Ctrl>'', modcmd = True\<rparr>,
           uzbl = \<lparr>config = map_of [], trace = [Event ''MODCMD_UPDATE'']\<rparr>\<rparr>
     = Some \<lparr>cmd = [], cursor = 0, held = [''Ctrl''], to_string_cache = Some ''<Ctrl>'',
             modcmd = True\<rparr>
   \<and> cmd \<lparr>cmd = [], cursor = 0, held = [''Ctrl''], to_string_cache = Some ''<Ctrl>'',
           modcmd = True\<rparr> = []
   \<and> keycmd_strip_word no_handlers
        \<lparr>UZBLS = Some \<lparr>cmd = [], cursor = 0, held = [''Ctrl''],
                         to_string_cache = Some ''<Ctrl>'', modcmd = True\<rparr>,
         uzbl = \<lparr>config = map_of [], trace = [Event ''MODCMD_UPDATE'']\<rparr>\<rparr> '' ''
     = Returns \<lparr>UZBLS = Some \<lparr>cmd = [], cursor = 0, held = [''Ctrl''],
                                to_string_cache = None, modcmd = True\<rparr>,
                uzbl = \<lparr>config = map_of [], trace = [Event ''MODCMD_UPDATE'']\<rparr>\<rparr>"
  using keycmd_strip_word_empty_command
    [of "\<lparr>UZBLS = Some \<lparr>cmd = [], cursor = 0, held = [''Ctrl''],
                           to_string_cache = Some ''<Ctrl>'', modcmd = True\<rparr>,
          uzbl = \<lparr>config = map_of [], trace = [Event ''MODCMD_UPDATE'']\<rparr>\<rparr>"
        "\<lparr>cmd = [], cursor = 0, held = [''Ctrl''], to_string_cache = Some ''<Ctrl>'',
          modcmd = True\<rparr>"
        no_handlers "'' ''"]
  by simp

subsection \<open>key_press with the space key\<close>

text \<open>
  C8, as the claim states it, fails where it says that Space is appended to \<open>held\<close>:
  a key is appended only when it is not held already. Pressing space on a fresh Keylet
  holds Space; \<open>set_keycmd\<close> with the empty string then clears the mode and leaves
  Space held; a second press of space (a key repeat) finds the command empty and the mode
  off, and leaves \<open>held\<close> as it was, with one Space in it.
\<close>

theorem key_press_space_already_held_counterexample:
  "key_press no_handlers (fresh (map_of [])) ''space''
     = Returns \<lparr>UZBLS = Some \<lparr>cmd = [], cursor = 0, held = [''Space''],
                                to_string_cache = Some ''<Space>'', modcmd = True\<rparr>,
                uzbl = \<lparr>config = map_of [],
                         trace = [Event ''MODCMD_UPDATE'', Set ''keycmd'' ''@[<Space>]@'']\<rparr>\<rparr>
   \<and> set_keycmd no_handlers
        \<lparr>UZBLS = Some \<lparr>cmd = [], cursor = 0, held = [''Space''],
                         to_string_cache = Some ''<Space>'', modcmd = True\<rparr>,
         uzbl = \<lparr>config = map_of [],
                  trace = [Event ''MODCMD_UPDATE'', Set ''keycmd'' ''@[<Space>]@'']\<rparr>\<rparr> []
     = Returns \<lparr>UZBLS = Some \<lparr>cmd = [], cursor = 0, held = [''Space''],
                                to_string_cache = None, modcmd = False\<rparr>,
                uzbl = \<lparr>config = map_of [],
                         trace = [Event ''MODCMD_UPDATE'', Set ''keycmd'' ''@[<Space>]@'',
                                  Set ''keycmd'' []]\<rparr>\<rparr>
   \<and> key_press no_handlers
        \<lparr>UZBLS = Some \<lparr>cmd = [], cursor = 0, held = [''Space''],
                         to_string_cache = None, modcmd = False\<rparr>,
         uzbl = \<lparr>config = map_of [],
                  trace = [Event ''MODCMD_UPDATE'', Set ''keycmd'' ''@[<Space>]@'',
                           Set ''keycmd'' []]\<rparr>\<rparr> ''space''
     = Returns \<lparr>UZBLS = Some \<lparr>cmd = [], cursor = 0, held = [''Space''],
                                to_string_cache = Some ''<Space>'', modcmd = True\<rparr>,
                uzbl = \<lparr>config = map_of [],
                         trace = [Event ''MODCMD_UPDATE'', Set ''keycmd'' ''@[<Space>]@'',
                                  Set ''keycmd'' [], Event ''MODCMD_UPDATE'',
                                  Set ''keycmd'' ''@[<Space>]@'']\<rparr>\<rparr>"
  by (simp add: model_defs string_defs Let_def)

text \<open>
  C8, amended. For every Keylet with empty command and modcmd false, \<open>key_press\<close> with
  the raw key \<open>space\<close> inserts nothing into the command: the key is made simple to the
  name \<open>Space\<close>, which is longer than one character, so the press enters modcmd mode, and
  \<open>Space\<close> is appended to \<open>held\<close> (which is then sorted) unless it is held already.
  Stated for the plugin alone (no other handler connected to the bus).
\<close>

theorem key_press_space_empty_command:
  assumes "UZBLS w = Some k" "cmd k = []" "\<not> modcmd k"
  shows "\<exists>w' k'. key_press no_handlers w ''space'' = Returns w' \<and> UZBLS w' = Some k'
     \<and> cmd k' = [] \<and> cursor k' = cursor k \<and> modcmd k'
     \<and> held k' = (if ''Space'' \<in> set (held k) then held k else sort (held k @ [''Space'']))"
proof -
  let ?k0 = "k\<lparr>to_string_cache := None\<rparr>"
  let ?w0 = "w\<lparr>UZBLS := Some ?k0\<rparr>"
  let ?h = "if ''Space'' \<in> set (held k) then held k else sort (held k @ [''Space''])"
  let ?k1 = "?k0\<lparr>modcmd := True, held := ?h\<rparr>"
  have gk: "get_keylet w = (?k0, ?w0)"
    using assms(1) by (simp add: get_keylet_def Let_def)
  have nshift: "\<not> startswith ''space'' ''Shift_''"
    by (simp add: startswith_def)
  have kp: "key_press no_handlers w ''space''
      = map_outcome registered (update_event no_handlers (uzbl ?w0) ?k1 True)"
    using assms(2,3)
    by (simp add: key_press_def gk nshift make_simple_space Let_def)
  obtain u' where "update_event no_handlers (uzbl ?w0) ?k1 True
            = Returns (?k1\<lparr>to_string_cache := Some (mod_cmd ?k1 @ cmd ?k1)\<rparr>, u')"
    using update_event_modcmd_idle [of ?k1 "uzbl ?w0"] by auto
  with kp assms(2) show ?thesis
    by (simp add: registered_def)
qed

theorem key_press_space_empty_command_witness:
  "UZBLS (fresh (map_of [])) = Some Keylet_init \<and> cmd Keylet_init = []
   \<and> \<not> modcmd Keylet_init
   \<and> (\<exists>w' k'. key_press no_handlers (fresh (map_of [])) ''space'' = Returns w'
        \<and> UZBLS w' = Some k' \<and> cmd k' = [] \<and> cursor k' = 0 \<and> modcmd k'
        \<and> held k' = [''Space''])"
  using key_press_space_empty_command [of "fresh (map_of [])" Keylet_init]
  by (auto simp add: fresh_def Keylet_init_def)

text \<open>
  The branch that inserts a space is taken when the command is not empty and the mode is
  off: the space goes in at the cursor and the cursor moves on by one.
\<close>

lemma key_press_space_in_command:
  "key_press no_handlers
     \<lparr>UZBLS = Some \<lparr>cmd = ''ab'', cursor = 1, held = [], to_string_cache = None,
                      modcmd = False\<rparr>,
      uzbl = \<lparr>config = map_of [], trace = []\<rparr>\<rparr> ''space''
   = Returns \<lparr>UZBLS = Some \<lparr>cmd = ''a b'', cursor = 2, held = [], to_string_cache = None,
                              modcmd = False\<rparr>,
              uzbl = \<lparr>config = map_of [],
                       trace = [Event ''KEYCMD_UPDATE'',
                                Set ''keycmd''
                                  ''@[a ]@<span @cursor_style>@[b]@</span>'']\<rparr>\<rparr>"
  by (simp add: model_defs string_defs Let_def)

subsection \<open>update_event\<close>

text \<open>
  C4, as the claim states it, fails: in the branch for a Keylet that is not in modcmd
  mode the test of \<open>keycmd_events\<close> comes before the event. With \<open>keycmd_events\<close> set to
  \<open>0\<close> the dispatcher returns at once, \<open>KEYCMD_UPDATE\<close> is not raised and nothing is
  written.
\<close>

theorem update_event_keycmd_events_off_counterexample:
  "\<not> modcmd Keylet_init
   \<and> update_event no_handlers
        \<lparr>config = map_of [(''keycmd_events'', ''0'')], trace = []\<rparr> Keylet_init True
     = Returns (Keylet_init, \<lparr>config = map_of [(''keycmd_events'', ''0'')], trace = []\<rparr>)
   \<and> Event ''KEYCMD_UPDATE''
       \<notin> set (trace (snd (state_of (update_event no_handlers
              \<lparr>config = map_of [(''keycmd_events'', ''0'')], trace = []\<rparr>
              Keylet_init True))))"
  by (simp add: update_event_def Keylet_init_def)

text \<open>
  C4, amended. When \<open>update_event\<close> runs with \<open>execute\<close> true on a Keylet whose modcmd is
  false: if \<open>keycmd_events\<close> is present in the configuration and is not \<open>1\<close>, it returns
  at once, with no event raised and nothing written; otherwise the first thing it does is
  raise \<open>KEYCMD_UPDATE\<close>. It holds whatever else is connected to the bus.
\<close>

theorem update_event_keycmd_branch:
  "\<not> modcmd k \<Longrightarrow>
   (if config u ''keycmd_events'' \<noteq> None \<and> config u ''keycmd_events'' \<noteq> Some ''1''
    then update_event r u k True = Returns (k, u)
    else \<exists>rest. trace (snd (state_of (update_event r u k True)))
                  = trace u @ Event ''KEYCMD_UPDATE'' # rest)"
  by (auto simp add: update_event_def event_def uzbl_set_def Let_def
        split: prod.splits option.splits)

theorem update_event_keycmd_branch_witness:
  "\<not> modcmd Keylet_init
   \<and> update_event no_handlers
        \<lparr>config = map_of [(''keycmd_events'', ''0'')], trace = []\<rparr> Keylet_init True
     = Returns (Keylet_init, \<lparr>config = map_of [(''keycmd_events'', ''0'')], trace = []\<rparr>)
   \<and> (\<exists>rest. trace (snd (state_of (update_event no_handlers
                 \<lparr>config = map_of [(''keycmd_events'', ''1'')], trace = []\<rparr>
                 Keylet_init True)))
          = [] @ Event ''KEYCMD_UPDATE'' # rest)"
  using update_event_keycmd_branch
      [of Keylet_init "\<lparr>config = map_of [(''keycmd_events'', ''0'')], trace = []\<rparr>"
          no_handlers]
    update_event_keycmd_branch
      [of Keylet_init "\<lparr>config = map_of [(''keycmd_events'', ''1'')], trace = []\<rparr>"
          no_handlers]
  by (simp add: Keylet_init_def)

text \<open>
  The branch for modcmd mode, for comparison: there \<open>MODCMD_UPDATE\<close> is raised first,
  whatever the configuration holds; \<open>modcmd_updates\<close> is looked at afterwards.
\<close>

lemma update_event_modcmd_branch:
  "modcmd k \<Longrightarrow>
   \<exists>rest. trace (snd (state_of (update_event r u k True)))
            = trace u @ Event ''MODCMD_UPDATE'' # rest"
  by (auto simp add: update_event_def event_def uzbl_set_def to_string_def Let_def
        split: prod.splits option.splits)

subsection \<open>Pressing and releasing a modifier with a key\<close>

text \<open>
  C1. The claim is that from a fresh Keylet the events \<open>key_press(Control)\<close>,
  \<open>key_press(a)\<close>, \<open>key_release(Control)\<close>, \<open>key_release(a)\<close> leave \<open>held\<close> empty and
  modcmd false and raise \<open>MODCMD_EXEC\<close> exactly once. The code leaves \<open>held\<close> empty and
  modcmd false, but it never raises \<open>MODCMD_EXEC\<close>: \<open>key_release\<close> recomputes the mode
  from the keys still held before it tests the mode, where its docstring has the test
  first. When Control is released only the one-character key a is still held, so the
  mode is already off when it is tested, and it is off again when a is released.
\<close>

theorem modifier_flow_exec_not_raised:
  "deliver no_handlers (fresh (map_of []))
     [KEY_PRESS ''Control'', KEY_PRESS ''a'', KEY_RELEASE ''Control'', KEY_RELEASE ''a'']
   = Returns \<lparr>UZBLS = Some \<lparr>cmd = [], cursor = 0, held = [], to_string_cache = None,
                              modcmd = False\<rparr>,
              uzbl = \<lparr>config = map_of [],
                       trace = [Event ''MODCMD_UPDATE'', Set ''keycmd'' ''@[<Ctrl>]@'',
                                Event ''MODCMD_UPDATE'', Set ''keycmd'' ''@[<Ctrl><a>]@'',
                                Event ''KEYCMD_UPDATE'', Set ''keycmd'' [],
                                Event ''KEYCMD_UPDATE'', Set ''keycmd'' []]\<rparr>\<rparr>
   \<and> times_raised ''MODCMD_EXEC''
        (trace (uzbl (state_of (deliver no_handlers (fresh (map_of []))
           [KEY_PRESS ''Control'', KEY_PRESS ''a'', KEY_RELEASE ''Control'',
            KEY_RELEASE ''a''])))) = 0"
  by (simp add: model_defs string_defs Let_def)

text \<open>
  With the steps of \<open>key_release\<close> in the order its docstring lists them
  (\<open>key_release_doc\<close>), the same two presses followed by the same two releases raise
  \<open>MODCMD_EXEC\<close> once, at the release of Control, and end with \<open>held\<close> empty and modcmd
  false: what the claim says.
\<close>

lemma modifier_flow_documented_order:
  "deliver no_handlers (fresh (map_of [])) [KEY_PRESS ''Control'', KEY_PRESS ''a'']
     = Returns \<lparr>UZBLS = Some \<lparr>cmd = [], cursor = 0, held = [''Ctrl'', ''a''],
                                to_string_cache = Some ''<Ctrl><a>'', modcmd = True\<rparr>,
                uzbl = \<lparr>config = map_of [],
                         trace = [Event ''MODCMD_UPDATE'', Set ''keycmd'' ''@[<Ctrl>]@'',
                                  Event ''MODCMD_UPDATE'',
                                  Set ''keycmd'' ''@[<Ctrl><a>]@'']\<rparr>\<rparr>
   \<and> key_release_doc no_handlers
        \<lparr>UZBLS = Some \<lparr>cmd = [], cursor = 0, held = [''Ctrl'', ''a''],
                         to_string_cache = Some ''<Ctrl><a>'', modcmd = True\<rparr>,
         uzbl = \<lparr>config = map_of [],
                  trace = [Event ''MODCMD_UPDATE'', Set ''keycmd'' ''@[<Ctrl>]@'',
                           Event ''MODCMD_UPDATE'', Set ''keycmd'' ''@[<Ctrl><a>]@'']\<rparr>\<rparr>
        ''Control''
     = Returns \<lparr>UZBLS = Some \<lparr>cmd = [], cursor = 0, held = [''a''],
                                to_string_cache = None, modcmd = False\<rparr>,
                uzbl = \<lparr>config = map_of [],
                         trace = [Event ''MODCMD_UPDATE'', Set ''keycmd'' ''@[<Ctrl>]@'',
                                  Event ''MODCMD_UPDATE'', Set ''keycmd'' ''@[<Ctrl><a>]@'',
                                  Event ''MODCMD_EXEC'', Event ''KEYCMD_UPDATE'',
                                  Set ''keycmd'' []]\<rparr>\<rparr>
   \<and> key_release_doc no_handlers
        \<lparr>UZBLS = Some \<lparr>cmd = [], cursor = 0, held = [''a''], to_string_cache = None,
                         modcmd = False\<rparr>,
         uzbl = \<lparr>config = map_of [],
                  trace = [Event ''MODCMD_UPDATE'', Set ''keycmd'' ''@[<Ctrl>]@'',
                           Event ''MODCMD_UPDATE'', Set ''keycmd'' ''@[<Ctrl><a>]@'',
                           Event ''MODCMD_EXEC'', Event ''KEYCMD_UPDATE'',
                           Set ''keycmd'' []]\<rparr>\<rparr>
        ''a''
     = Returns \<lparr>UZBLS = Some \<lparr>cmd = [], cursor = 0, held = [], to_string_cache = None,
                                modcmd = False\<rparr>,
                uzbl = \<lparr>config = map_of [],
                         trace = [Event ''MODCMD_UPDATE'', Set ''keycmd'' ''@[<Ctrl>]@'',
                                  Event ''MODCMD_UPDATE'', Set ''keycmd'' ''@[<Ctrl><a>]@'',
                                  Event ''MODCMD_EXEC'', Event ''KEYCMD_UPDATE'',
                                  Set ''keycmd'' [], Event ''KEYCMD_UPDATE'',
                                  Set ''keycmd'' []]\<rparr>\<rparr>
   \<and> times_raised ''MODCMD_EXEC''
        [Event ''MODCMD_UPDATE'', Set ''keycmd'' ''@[<Ctrl>]@'',
         Event ''MODCMD_UPDATE'', Set ''keycmd'' ''@[<Ctrl><a>]@'',
         Event ''MODCMD_EXEC'', Event ''KEYCMD_UPDATE'', Set ''keycmd'' [],
         Event ''KEYCMD_UPDATE'', Set ''keycmd'' []] = 1"
  by (simp add: model_defs key_release_doc_def string_defs Let_def)

subsection \<open>keycmd_backspace and the cursor\<close>

text \<open>
  C2. The claim is that every handler keeps \<open>0 \<le> cursor \<le> len(command)\<close>.
  \<open>keycmd_backspace\<close> does not: it tests only that the command is not empty, so with
  the cursor at 0 it computes \<open>cmd[:-1] + cmd[0:]\<close> and moves the cursor to -1. The state
  is reached by \<open>set_keycmd(ab)\<close> and \<open>set_cursor_pos(0)\<close>; there the invariant holds,
  and after \<open>keycmd_backspace\<close> the command is \<open>aab\<close> and the cursor is -1.
\<close>

theorem keycmd_backspace_at_cursor_zero:
  "set_keycmd no_handlers (fresh (map_of [])) ''ab''
     = Returns \<lparr>UZBLS = Some \<lparr>cmd = ''ab'', cursor = 2, held = [], to_string_cache = None,
                                modcmd = False\<rparr>,
                uzbl = \<lparr>config = map_of [],
                         trace = [Set ''keycmd''
                                    ''@[ab]@<span @cursor_style>@[ ]@</span>'']\<rparr>\<rparr>
   \<and> set_cursor_pos no_handlers
        \<lparr>UZBLS = Some \<lparr>cmd = ''ab'', cursor = 2, held = [], to_string_cache = None,
                         modcmd = False\<rparr>,
         uzbl = \<lparr>config = map_of [],
                  trace = [Set ''keycmd'' ''@[ab]@<span @cursor_style>@[ ]@</span>'']\<rparr>\<rparr>
        ''0''
     = Returns \<lparr>UZBLS = Some \<lparr>cmd = ''ab'', cursor = 0, held = [], to_string_cache = None,
                                modcmd = False\<rparr>,
                uzbl = \<lparr>config = map_of [],
                         trace = [Set ''keycmd'' ''@[ab]@<span @cursor_style>@[ ]@</span>'',
                                  Set ''keycmd''
                                    ''<span @cursor_style>@[a]@</span>@[b]@'']\<rparr>\<rparr>
   \<and> cursor_ok \<lparr>cmd = ''ab'', cursor = 0, held = [], to_string_cache = None,
                 modcmd = False\<rparr>
   \<and> keycmd_backspace no_handlers
        \<lparr>UZBLS = Some \<lparr>cmd = ''ab'', cursor = 0, held = [], to_string_cache = None,
                         modcmd = False\<rparr>,
         uzbl = \<lparr>config = map_of [],
                  trace = [Set ''keycmd'' ''@[ab]@<span @cursor_style>@[ ]@</span>'',
                           Set ''keycmd'' ''<span @cursor_style>@[a]@</span>@[b]@'']\<rparr>\<rparr>
        []
     = Returns \<lparr>UZBLS = Some \<lparr>cmd = ''aab'', cursor = - 1, held = [],
                                to_string_cache = None, modcmd = False\<rparr>,
                uzbl = \<lparr>config = map_of [],
                         trace = [Set ''keycmd'' ''@[ab]@<span @cursor_style>@[ ]@</span>'',
                                  Set ''keycmd'' ''<span @cursor_style>@[a]@</span>@[b]@'',
                                  Set ''keycmd''
                                    ''@[aa]@<span @cursor_style>@[b]@</span>@[aab]@'']\<rparr>\<rparr>
   \<and> \<not> cursor_ok \<lparr>cmd = ''aab'', cursor = - 1, held = [], to_string_cache = None,
                    modcmd = False\<rparr>"
  by (simp add: model_defs string_defs Let_def)

subsection \<open>keycmd_strip_word and its assertion\<close>

text \<open>
  C3. The claim is that for every non-empty separator the number of characters after the
  cursor is unchanged, so that the assertion cannot fire. The new cursor is computed as
  \<open>len(tmp[0]) + (len(tmp) - 1)\<close>, which counts one character for the separator that is
  put back. With the two-character separator \<open>, \<close> on the command \<open>a, b\<close> with the cursor
  at the end, the command becomes \<open>a, \<close> and the cursor 2: one character is after the
  cursor where none was, and the handler raises AssertionError, with the Keylet already
  changed.
\<close>

theorem keycmd_strip_word_two_char_separator:
  "set_keycmd no_handlers (fresh (map_of [])) ''a, b''
     = Returns \<lparr>UZBLS = Some \<lparr>cmd = ''a, b'', cursor = 4, held = [],
                                to_string_cache = None, modcmd = False\<rparr>,
                uzbl = \<lparr>config = map_of [],
                         trace = [Set ''keycmd''
                                    ''@[a, b]@<span @cursor_style>@[ ]@</span>'']\<rparr>\<rparr>
   \<and> cursor_ok \<lparr>cmd = ''a, b'', cursor = 4, held = [], to_string_cache = None,
                 modcmd = False\<rparr>
   \<and> keycmd_strip_word no_handlers
        \<lparr>UZBLS = Some \<lparr>cmd = ''a, b'', cursor = 4, held = [], to_string_cache = None,
                         modcmd = False\<rparr>,
         uzbl = \<lparr>config = map_of [],
                  trace = [Set ''keycmd'' ''@[a, b]@<span @cursor_style>@[ ]@</span>'']\<rparr>\<rparr>
        '', ''
     = Raises AssertionError
         \<lparr>UZBLS = Some \<lparr>cmd = ''a, '', cursor = 2, held = [], to_string_cache = None,
                          modcmd = False\<rparr>,
          uzbl = \<lparr>config = map_of [],
                   trace = [Set ''keycmd''
                              ''@[a, b]@<span @cursor_style>@[ ]@</span>'']\<rparr>\<rparr>
   \<and> int (length ''a, b'') - 4 \<noteq> int (length ''a, '') - 2"
  by (simp add: model_defs string_defs Let_def)

end
